theory Spec2Isabelle
  imports Main
begin

section \<open>Data model\<close>

text \<open>
  The program keeps its whole state in one JSON document, \<^verbatim>\<open>self.database\<close>: a
  dictionary with the keys \<^verbatim>\<open>"files"\<close> (absolute path to integrity record) and
  \<^verbatim>\<open>"metadata"\<close>. Records are dictionaries from field names to JSON scalars; the
  code reads several fields with \<^verbatim>\<open>.get(key, default)\<close> and one
  (\<^verbatim>\<open>"hash"\<close>) with a plain subscript, so a field may be absent and a missing key is
  a \<^verbatim>\<open>KeyError\<close>. A document read from disk need not have either top-level key.

  Field values are the JSON scalars: strings, integers, booleans and null. Floating point
  numbers and nested arrays or objects as field values are not represented.
\<close>

type_synonym bytes = "char list"

datatype jval = JNull | JBool bool | JInt int | JStr string

type_synonym file_info = "string \<rightharpoonup> jval"

record store =
  files :: "(string \<rightharpoonup> file_info) option"
  metadata :: "(string \<rightharpoonup> jval) option"

text \<open>Exceptions that no handler of the program catches, and the result of a call.\<close>

datatype py_exception = KeyError | TypeError | UnicodeDecodeError

datatype 'a result = Returned 'a | Raised py_exception

text \<open>
  What \<^verbatim>\<open>json.load\<close> does on the content of a file opened as UTF-8 text: it
  returns the document, or raises \<^verbatim>\<open>JSONDecodeError\<close> (the text is not valid JSON), or
  raises \<^verbatim>\<open>UnicodeDecodeError\<close> (the bytes are not text).
\<close>

datatype parse_outcome = Parsed store | JSONDecodeError | NotText

text \<open>A path of the file system names a regular file with its content, or a node that
  exists but cannot be opened for reading (a directory, a file without permission).\<close>

datatype node = File bytes | Unreadable

text \<open>
  A hash object made by \<^verbatim>\<open>hashlib.new\<close>. \<^verbatim>\<open>hexdigest()\<close>, called with no argument,
  returns the digest of all the bytes fed to a fixed-length hash (\<open>Hexdigest f\<close>); on
  an extendable-output hash (\<^verbatim>\<open>shake_128\<close>, \<^verbatim>\<open>shake_256\<close>) it raises
  \<^verbatim>\<open>TypeError\<close>, because the length is a required argument there.
\<close>

datatype hash_object = Hexdigest "bytes \<Rightarrow> string" | Needs_length

text \<open>The lines printed by the program, without the text of the exception.\<close>

datatype message =
    Warning_could_not_load_database
  | Error_saving_database
  | Error_calculating_hash string
  | Error_file_does_not_exist string
  | Error_exporting_database
  | Error_importing_database

text \<open>
  The environment of a call. \<open>abspath\<close>, \<open>hashlib_new\<close>, \<open>json_dump\<close> and
  \<open>json_load\<close> are the library functions the program calls (\<^verbatim>\<open>os.path.abspath\<close>
  for the current directory, \<^verbatim>\<open>hashlib.new\<close>, \<^verbatim>\<open>json.dump\<close>,
  \<^verbatim>\<open>json.load\<close>); no operation changes them. \<open>hashlib_new name\<close> is \<open>None\<close> when
  \<^verbatim>\<open>hashlib.new\<close> raises \<^verbatim>\<open>ValueError\<close> (unsupported name), and otherwise the
  hash object it returns. \<open>fs\<close> is the
  file system, \<open>writable p\<close> says whether \<^verbatim>\<open>open(p, 'w')\<close> succeeds (when it does
  not, it raises \<^verbatim>\<open>IOError\<close> and the file is left as it was). \<open>clock\<close> is the
  sequence of readings that successive calls of \<^verbatim>\<open>datetime.now().isoformat()\<close>
  return, \<open>tick\<close> the number of readings taken so far. \<open>stdout\<close> collects the
  printed lines.
\<close>

record world =
  abspath :: "string \<Rightarrow> string"
  hashlib_new :: "string \<Rightarrow> hash_object option"
  json_dump :: "store \<Rightarrow> bytes"
  json_load :: "bytes \<Rightarrow> parse_outcome"
  fs :: "string \<rightharpoonup> node"
  writable :: "string \<Rightarrow> bool"
  clock :: "nat \<Rightarrow> string"
  tick :: nat
  stdout :: "message list"

text \<open>The object \<^verbatim>\<open>FileIntegrityChecker\<close>.\<close>

record checker =
  database_path :: string
  database :: store

section \<open>Environment primitives\<close>

definition now :: "world \<Rightarrow> string \<times> world" where
  "now w = (clock w (tick w), w\<lparr>tick := Suc (tick w)\<rparr>)"

definition print :: "message \<Rightarrow> world \<Rightarrow> world" where
  "print m w = w\<lparr>stdout := stdout w @ [m]\<rparr>"

definition exists_path :: "world \<Rightarrow> string \<Rightarrow> bool" where
  "exists_path w p = (fs w p \<noteq> None)"

text \<open>\<^verbatim>\<open>with open(p, 'w') as f: json.dump(d, f, ...)\<close>: \<open>None\<close> is \<^verbatim>\<open>IOError\<close>.\<close>

definition write_json :: "world \<Rightarrow> string \<Rightarrow> store \<Rightarrow> world option" where
  "write_json w p d =
     (if writable w p then Some (w\<lparr>fs := (fs w)(p \<mapsto> File (json_dump w d))\<rparr>) else None)"

text \<open>\<^verbatim>\<open>with open(p, 'r') as f: json.load(f)\<close>.\<close>

datatype read_outcome = Loaded store | Raises_IOError | Raises_JSONDecodeError | Raises_other py_exception

definition read_json :: "world \<Rightarrow> string \<Rightarrow> read_outcome" where
  "read_json w p =
     (case fs w p of
        None \<Rightarrow> Raises_IOError
      | Some Unreadable \<Rightarrow> Raises_IOError
      | Some (File b) \<Rightarrow>
          (case json_load w b of
             Parsed d \<Rightarrow> Loaded d
           | JSONDecodeError \<Rightarrow> Raises_JSONDecodeError
           | NotText \<Rightarrow> Raises_other UnicodeDecodeError))"

text \<open>\<^verbatim>\<open>d.get(key, default)\<close>.\<close>

definition get_default :: "('k \<rightharpoonup> 'v) \<Rightarrow> 'k \<Rightarrow> 'v \<Rightarrow> 'v" where
  "get_default d k dflt = (case d k of None \<Rightarrow> dflt | Some v \<Rightarrow> v)"

text \<open>\<^verbatim>\<open>x + 1\<close> on a JSON value: a boolean is an integer in Python, a string or
  null raises \<^verbatim>\<open>TypeError\<close>.\<close>

fun plus_one :: "jval \<Rightarrow> jval result" where
  "plus_one (JInt n) = Returned (JInt (n + 1))"
| "plus_one (JBool b) = Returned (JInt ((if b then 1 else 0) + 1))"
| "plus_one (JStr s) = Raised TypeError"
| "plus_one JNull = Raised TypeError"

section \<open>The record store: load and save\<close>

definition fresh_store :: "string \<Rightarrow> store" where
  "fresh_store t = \<lparr>files = Some Map.empty, metadata = Some [''created'' \<mapsto> JStr t]\<rparr>"

text \<open>\<^verbatim>\<open>_load_database\<close> (lines 24-33), for the store path \<open>path\<close>;
  \<open>load_fallback\<close> is the body of its exception handler (lines 31-32).\<close>

definition load_fallback :: "world \<Rightarrow> store result \<times> world" where
  "load_fallback w =
     (let w1 = print Warning_could_not_load_database w;
          (t, w2) = now w1
      in (Returned (fresh_store t), w2))"

definition load_database :: "string \<Rightarrow> world \<Rightarrow> store result \<times> world" where
  "load_database path w =
     (if exists_path w path then
        (case read_json w path of
           Loaded d \<Rightarrow> (Returned d, w)
         | Raises_JSONDecodeError \<Rightarrow> load_fallback w
         | Raises_IOError \<Rightarrow> load_fallback w
         | Raises_other e \<Rightarrow> (Raised e, w))
      else
        (let (t, w1) = now w in (Returned (fresh_store t), w1)))"

text \<open>\<^verbatim>\<open>_save_database\<close> (lines 35-44). The right-hand side of the assignment is
  evaluated first, then \<^verbatim>\<open>self.database["metadata"]\<close>, whose \<^verbatim>\<open>KeyError\<close> the
  handler (for \<^verbatim>\<open>IOError\<close>) does not catch.\<close>

definition save_database :: "checker \<Rightarrow> world \<Rightarrow> bool result \<times> checker \<times> world" where
  "save_database c w =
     (let (t, w1) = now w in
      case metadata (database c) of
        None \<Rightarrow> (Raised KeyError, c, w1)
      | Some md \<Rightarrow>
          (let c1 = c\<lparr>database := (database c)\<lparr>metadata := Some (md(''last_updated'' \<mapsto> JStr t))\<rparr>\<rparr>
           in case write_json w1 (database_path c1) (database c1) of
                Some w2 \<Rightarrow> (Returned True, c1, w2)
              | None \<Rightarrow> (Returned False, c1, print Error_saving_database w1)))"

section \<open>The hasher\<close>

text \<open>
  The loop of \<^verbatim>\<open>calculate_file_hash\<close>: \<^verbatim>\<open>f.read(4096)\<close> returns the next (at most)
  4096 bytes, the loop stops at the first empty chunk, and every chunk is fed to the hash
  object. \<open>fed\<close> is what the hash object has received so far, \<open>rest\<close> the unread
  part of the file.
\<close>

function feed_chunks :: "bytes \<Rightarrow> bytes \<Rightarrow> bytes" where
  "feed_chunks fed rest =
     (let chunk = take 4096 rest
      in if chunk = [] then fed else feed_chunks (fed @ chunk) (drop 4096 rest))"
  by pat_completeness auto
termination
  by (relation "measure (\<lambda>(fed, rest). length rest)") auto

declare feed_chunks.simps [simp del]

text \<open>
  \<^verbatim>\<open>calculate_file_hash\<close> (lines 46-57). The algorithm is whatever the caller passes;
  \<^verbatim>\<open>verify_file\<close> passes a value read from a record. \<^verbatim>\<open>hashlib.new\<close> raises
  \<^verbatim>\<open>TypeError\<close> on a name that is not a string (not caught), \<^verbatim>\<open>ValueError\<close> on an
  unsupported name (caught); \<^verbatim>\<open>open\<close> raises \<^verbatim>\<open>IOError\<close> (caught); after the
  file was read, \<^verbatim>\<open>hexdigest()\<close> raises \<^verbatim>\<open>TypeError\<close> on an extendable-output
  hash (not caught). The result \<open>Returned None\<close> is the Python value \<^verbatim>\<open>None\<close>.
\<close>

definition calculate_file_hash :: "world \<Rightarrow> string \<Rightarrow> jval \<Rightarrow> string option result \<times> world" where
  "calculate_file_hash w file_path algorithm =
     (case algorithm of
        JStr name \<Rightarrow>
          (case hashlib_new w name of
             None \<Rightarrow> (Returned None, print (Error_calculating_hash file_path) w)
           | Some hash_obj \<Rightarrow>
               (case fs w file_path of
                  Some (File content) \<Rightarrow>
                    (case hash_obj of
                       Hexdigest hexdigest \<Rightarrow> (Returned (Some (hexdigest (feed_chunks [] content))), w)
                     | Needs_length \<Rightarrow> (Raised TypeError, w))
                | _ \<Rightarrow> (Returned None, print (Error_calculating_hash file_path) w)))
      | _ \<Rightarrow> (Raised TypeError, w))"

section \<open>The integrity engine\<close>

text \<open>\<^verbatim>\<open>self.database["files"][p] = info\<close>, where \<open>fm\<close> is the current
  \<^verbatim>\<open>"files"\<close> dictionary.\<close>

definition put_info :: "checker \<Rightarrow> (string \<rightharpoonup> file_info) \<Rightarrow> string \<Rightarrow> file_info \<Rightarrow> checker" where
  "put_info c fm p info = c\<lparr>database := (database c)\<lparr>files := Some (fm(p \<mapsto> info))\<rparr>\<rparr>"

text \<open>\<^verbatim>\<open>os.stat(p).st_size\<close>; \<^verbatim>\<open>add_file\<close> reaches it only after the file was
  read, so for a regular file.\<close>

definition st_size :: "world \<Rightarrow> string \<Rightarrow> int" where
  "st_size w p = (case fs w p of Some (File content) \<Rightarrow> int (length content) | _ \<Rightarrow> 0)"

text \<open>\<^verbatim>\<open>add_file\<close> (lines 59-84).\<close>

definition add_file :: "checker \<Rightarrow> world \<Rightarrow> string \<Rightarrow> string \<Rightarrow> bool result \<times> checker \<times> world" where
  "add_file c w file_path description =
     (let p = abspath w file_path in
      if \<not> exists_path w p then (Returned False, c, print (Error_file_does_not_exist p) w)
      else
        (case calculate_file_hash w p (JStr ''sha256'') of
           (Raised e, w1) \<Rightarrow> (Raised e, c, w1)
         | (Returned None, w1) \<Rightarrow> (Returned False, c, w1)
         | (Returned (Some hash_value), w1) \<Rightarrow>
             (let (t1, w2) = now w1;
                  (t2, w3) = now w2;
                  file_info =
                    [''hash'' \<mapsto> JStr hash_value,
                     ''algorithm'' \<mapsto> JStr ''sha256'',
                     ''size'' \<mapsto> JInt (st_size w1 p),
                     ''added_date'' \<mapsto> JStr t1,
                     ''last_checked'' \<mapsto> JStr t2,
                     ''description'' \<mapsto> JStr description,
                     ''check_count'' \<mapsto> JInt 1,
                     ''status'' \<mapsto> JStr ''verified'']
              in case files (database c) of
                   None \<Rightarrow> (Raised KeyError, c, w3)
                 | Some fm \<Rightarrow> save_database (put_info c fm p file_info) w3)))"

text \<open>
  The classification \<^verbatim>\<open>verify_file\<close> returns, with the details of its second
  component: \<open>Verified hash last_checked\<close> and
  \<open>Tampered expected_hash current_hash tampered_date\<close>.
\<close>

datatype verdict =
    Unknown
  | Missing
  | Error
  | Verified string jval
  | Tampered jval string jval

text \<open>
  \<^verbatim>\<open>verify_file\<close> (lines 86-123). \<^verbatim>\<open>stored_info\<close> is the record object itself,
  not a copy, so the reads after line 103 see the updated record: \<open>info1\<close>, \<open>info2\<close>
  and \<open>info3\<close> are its successive states. The result of \<^verbatim>\<open>_save_database\<close> is
  dropped (lines 108 and 117); an exception it raises is not. The details returned are
  read back from the record after the save, which changes no record.
\<close>

definition verify_file :: "checker \<Rightarrow> world \<Rightarrow> string \<Rightarrow> verdict result \<times> checker \<times> world" where
  "verify_file c w file_path =
     (let p = abspath w file_path in
      case files (database c) of
        None \<Rightarrow> (Raised KeyError, c, w)
      | Some fm \<Rightarrow>
          (case fm p of
             None \<Rightarrow> (Returned Unknown, c, w)
           | Some stored_info \<Rightarrow>
               if \<not> exists_path w p then (Returned Missing, c, w)
               else
                 (case calculate_file_hash w p (get_default stored_info ''algorithm'' (JStr ''sha256'')) of
                    (Raised e, w1) \<Rightarrow> (Raised e, c, w1)
                  | (Returned None, w1) \<Rightarrow> (Returned Error, c, w1)
                  | (Returned (Some current_hash), w1) \<Rightarrow>
                      (let (t1, w2) = now w1;
                           info1 = stored_info(''last_checked'' \<mapsto> JStr t1)
                       in case plus_one (get_default info1 ''check_count'' (JInt 0)) of
                            Raised e \<Rightarrow> (Raised e, put_info c fm p info1, w2)
                          | Returned n \<Rightarrow>
                              (let info2 = info1(''check_count'' \<mapsto> n)
                               in case info2 ''hash'' of
                                    None \<Rightarrow> (Raised KeyError, put_info c fm p info2, w2)
                                  | Some stored_hash \<Rightarrow>
                                      if JStr current_hash = stored_hash then
                                        (let info3 = info2(''status'' \<mapsto> JStr ''verified'')
                                         in case save_database (put_info c fm p info3) w2 of
                                              (Raised e, c1, w3) \<Rightarrow> (Raised e, c1, w3)
                                            | (Returned saved, c1, w3) \<Rightarrow>
                                                (Returned (Verified current_hash (JStr t1)), c1, w3))
                                      else
                                        (let (t2, w3) = now w2;
                                             info3 = info2(''status'' \<mapsto> JStr ''tampered'',
                                                          ''tampered_date'' \<mapsto> JStr t2)
                                         in case save_database (put_info c fm p info3) w3 of
                                              (Raised e, c1, w4) \<Rightarrow> (Raised e, c1, w4)
                                            | (Returned saved, c1, w4) \<Rightarrow>
                                                (Returned (Tampered stored_hash current_hash (JStr t2)), c1, w4)))))))"

text \<open>\<^verbatim>\<open>remove_file\<close> (lines 133-139).\<close>

definition remove_file :: "checker \<Rightarrow> world \<Rightarrow> string \<Rightarrow> bool result \<times> checker \<times> world" where
  "remove_file c w file_path =
     (let p = abspath w file_path in
      case files (database c) of
        None \<Rightarrow> (Raised KeyError, c, w)
      | Some fm \<Rightarrow>
          if fm p \<noteq> None
          then save_database (c\<lparr>database := (database c)\<lparr>files := Some (fm(p := None))\<rparr>\<rparr>) w
          else (Returned False, c, w))"

text \<open>\<^verbatim>\<open>export_database\<close> (lines 157-165).\<close>

definition export_database :: "checker \<Rightarrow> world \<Rightarrow> string \<Rightarrow> bool \<times> world" where
  "export_database c w export_path =
     (case write_json w export_path (database c) of
        Some w1 \<Rightarrow> (True, w1)
      | None \<Rightarrow> (False, print Error_exporting_database w))"

text \<open>
  \<^verbatim>\<open>import_database\<close> (lines 167-181). \<^verbatim>\<open>dict.update\<close> is map override
  (\<open>++\<close>: the right operand wins); \<^verbatim>\<open>imported_data.get("files", {})\<close> is the empty
  dictionary when the imported document has no \<^verbatim>\<open>"files"\<close>.
\<close>

definition import_database :: "checker \<Rightarrow> world \<Rightarrow> string \<Rightarrow> bool \<Rightarrow> bool result \<times> checker \<times> world" where
  "import_database c w import_path merge =
     (case read_json w import_path of
        Loaded imported_data \<Rightarrow>
          if merge then
            (case files (database c) of
               None \<Rightarrow> (Raised KeyError, c, w)
             | Some fm \<Rightarrow>
                 save_database
                   (c\<lparr>database := (database c)\<lparr>files :=
                        Some (fm ++ (case files imported_data of
                                       None \<Rightarrow> Map.empty
                                     | Some imported_files \<Rightarrow> imported_files))\<rparr>\<rparr>) w)
          else save_database (c\<lparr>database := imported_data\<rparr>) w
      | Raises_JSONDecodeError \<Rightarrow> (Returned False, c, print Error_importing_database w)
      | Raises_IOError \<Rightarrow> (Returned False, c, print Error_importing_database w)
      | Raises_other e \<Rightarrow> (Raised e, c, w))"

text \<open>
  \<^verbatim>\<open>verify_all_files\<close> calls \<^verbatim>\<open>verify_file\<close> once for every key of the
  \<^verbatim>\<open>"files"\<close> dictionary and \<^verbatim>\<open>list_files\<close> only reads the store; the sequences
  of calls defined below cover the former, and no statement here is about the latter.
\<close>

section \<open>Observations on a store\<close>

text \<open>The record stored for a path, and one field of it; \<open>None\<close> when the store has
  no \<^verbatim>\<open>"files"\<close>, no record for the path, or the record lacks the field.\<close>

definition lookup_record :: "checker \<Rightarrow> string \<Rightarrow> file_info option" where
  "lookup_record c p = (case files (database c) of None \<Rightarrow> None | Some fm \<Rightarrow> fm p)"

definition record_field :: "checker \<Rightarrow> string \<Rightarrow> string \<Rightarrow> jval option" where
  "record_field c p k = (case lookup_record c p of None \<Rightarrow> None | Some info \<Rightarrow> info k)"

text \<open>The integer a JSON value is in Python arithmetic, when it is one.\<close>

fun int_value :: "jval \<Rightarrow> int option" where
  "int_value (JInt n) = Some n"
| "int_value (JBool b) = Some (if b then 1 else 0)"
| "int_value (JStr s) = None"
| "int_value JNull = None"

text \<open>A call of \<^verbatim>\<open>verify_file\<close> that computed the current hash and classified the
  file: \<open>comparison\<close> says whether it found a mismatch.\<close>

fun comparison :: "verdict result \<Rightarrow> bool option" where
  "comparison (Returned (Verified h t)) = Some False"
| "comparison (Returned (Tampered e h t)) = Some True"
| "comparison r = None"

fun is_computed :: "verdict result \<Rightarrow> bool" where
  "is_computed (Returned (Verified h t)) = True"
| "is_computed (Returned (Tampered e h t)) = True"
| "is_computed r = False"

text \<open>The \<^verbatim>\<open>"files"\<close> of a document, empty when it has none.\<close>

definition files_or_empty :: "store \<Rightarrow> (string \<rightharpoonup> file_info)" where
  "files_or_empty d = (case files d of None \<Rightarrow> Map.empty | Some m \<Rightarrow> m)"

section \<open>Sequences of verify calls\<close>

text \<open>
  A sequence of calls of \<^verbatim>\<open>verify_file\<close> on one checker object, each with the
  environment of its moment (the files may change between two calls) and its argument.
  \<open>verify_seq\<close> is the checker after the calls, \<open>verify_log\<close> the canonical path and
  the outcome of every call, oldest first. A caller that catches an exception goes on with
  the object as the failed call left it.
\<close>

fun verify_seq :: "checker \<Rightarrow> (world \<times> string) list \<Rightarrow> checker" where
  "verify_seq c [] = c"
| "verify_seq c ((w, file_path) # calls) = verify_seq (fst (snd (verify_file c w file_path))) calls"

fun verify_log :: "checker \<Rightarrow> (world \<times> string) list \<Rightarrow> (string \<times> verdict result) list" where
  "verify_log c [] = []"
| "verify_log c ((w, file_path) # calls) =
     (abspath w file_path, fst (verify_file c w file_path))
       # verify_log (fst (snd (verify_file c w file_path))) calls"

text \<open>What the most recent call that computed a hash for \<open>p\<close> found: \<open>Some True\<close>
  is a mismatch, \<open>None\<close> means that no call of the log computed one.\<close>

fun last_comparison :: "string \<Rightarrow> (string \<times> verdict result) list \<Rightarrow> bool option" where
  "last_comparison p [] = None"
| "last_comparison p ((q, r) # later) =
     (case last_comparison p later of
        Some mismatch \<Rightarrow> Some mismatch
      | None \<Rightarrow> if q = p then comparison r else None)"

text \<open>An entry of the log agrees with the hash stored in \<open>c\<close>: \<^verbatim>\<open>verified\<close> reports
  the stored hash, \<^verbatim>\<open>tampered\<close> the stored hash and a different current one.\<close>

fun hash_compared :: "checker \<Rightarrow> string \<times> verdict result \<Rightarrow> bool" where
  "hash_compared c (q, Returned (Verified h t)) = (record_field c q ''hash'' = Some (JStr h))"
| "hash_compared c (q, Returned (Tampered e h t)) =
     (record_field c q ''hash'' = Some e \<and> e \<noteq> JStr h)"
| "hash_compared c (q, r) = True"

fun mismatch_on :: "string \<Rightarrow> string \<times> verdict result \<Rightarrow> bool" where
  "mismatch_on p (q, r) = (q = p \<and> comparison r = Some True)"

section \<open>Concrete inputs\<close>

text \<open>
  A small environment on which the operations are run: the directory \<^verbatim>\<open>/work\<close> with the
  tracked file \<^verbatim>\<open>a.txt\<close> (its content is a parameter) and the store file. The two digests
  are stand-ins that keep the algorithm visible. The parser knows one document; content
  with the byte \<open>0xFF\<close>, which no UTF-8 text contains, is not text, and any other
  content is text that is not JSON.
\<close>

definition demo_hashlib :: "string \<Rightarrow> hash_object option" where
  "demo_hashlib name =
     (if name = ''sha256'' then Some (Hexdigest (\<lambda>content. ''sha256:'' @ content))
      else if name = ''md5'' then Some (Hexdigest (\<lambda>content. ''md5:'' @ content))
      else if name = ''shake_128'' then Some Needs_length
      else None)"

definition demo_record :: file_info where
  "demo_record =
     [''hash'' \<mapsto> JStr ''sha256:hello'',
      ''algorithm'' \<mapsto> JStr ''sha256'',
      ''size'' \<mapsto> JInt 5,
      ''added_date'' \<mapsto> JStr ''t0'',
      ''last_checked'' \<mapsto> JStr ''t0'',
      ''description'' \<mapsto> JStr [],
      ''check_count'' \<mapsto> JInt 1,
      ''status'' \<mapsto> JStr ''verified'']"

definition demo_store :: store where
  "demo_store =
     \<lparr>files = Some [''/work/a.txt'' \<mapsto> demo_record],
      metadata = Some [''created'' \<mapsto> JStr ''t0'']\<rparr>"

definition demo_checker :: checker where
  "demo_checker = \<lparr>database_path = ''/work/integrity_database.json'', database = demo_store\<rparr>"

definition demo_world :: "bytes \<Rightarrow> bool \<Rightarrow> world" where
  "demo_world content can_write =
     \<lparr>abspath = (\<lambda>p. if take 1 p = ''/'' then p else ''/work/'' @ p),
      hashlib_new = demo_hashlib,
      json_dump = (\<lambda>d. ''{}''),
      json_load = (\<lambda>b. if b = ''{}'' then Parsed demo_store
                       else if CHR 0xFF \<in> set b then NotText
                       else JSONDecodeError),
      fs = [''/work/a.txt'' \<mapsto> File content, ''/work/integrity_database.json'' \<mapsto> File ''{}''],
      writable = (\<lambda>p. can_write),
      clock = (\<lambda>n. if n = 1 then ''t1'' else if n = 2 then ''t2'' else ''t3''),
      tick = 1,
      stdout = []\<rparr>"

text \<open>A store whose record for \<^verbatim>\<open>a.txt\<close> was made with another algorithm, and a
  second record.\<close>

definition demo_md5_checker :: checker where
  "demo_md5_checker =
     \<lparr>database_path = ''/work/integrity_database.json'',
      database =
        \<lparr>files = Some [''/work/a.txt'' \<mapsto> demo_record(''algorithm'' \<mapsto> JStr ''md5'',
                                                      ''hash'' \<mapsto> JStr ''md5:hello''),
                       ''/work/b.txt'' \<mapsto> demo_record],
         metadata = Some [''created'' \<mapsto> JStr ''t0'']\<rparr>\<rparr>"

text \<open>The file is overwritten with other bytes and verified, then restored and verified
  again.\<close>

definition demo_calls :: "(world \<times> string) list" where
  "demo_calls = [(demo_world ''world'' True, ''a.txt''), (demo_world ''hello'' True, ''a.txt'')]"

definition demo_tampered_checker :: checker where
  "demo_tampered_checker = fst (snd (verify_file demo_checker (demo_world ''world'' True) ''a.txt''))"

text \<open>The same environment after the store file was overwritten with two bytes that are
  not UTF-8 text.\<close>

definition demo_corrupt_world :: world where
  "demo_corrupt_world =
     (demo_world ''hello'' True)
       \<lparr>fs := [''/work/a.txt'' \<mapsto> File ''hello'',
               ''/work/integrity_database.json'' \<mapsto> File [CHR 0xFF, CHR 0xFE]]\<rparr>"

definition demo_fresh_checker :: checker where
  "demo_fresh_checker = \<lparr>database_path = ''/work/other.json'', database = fresh_store ''t0''\<rparr>"

section \<open>Basic facts\<close>

text \<open>The chunked loop feeds the whole file, in order.\<close>

lemma feed_chunks_eq: "feed_chunks fed rest = fed @ rest"
proof (induction fed rest rule: feed_chunks.induct)
  case (1 fed rest)
  show ?case
  proof (cases "take 4096 rest = []")
    case True
    then show ?thesis by (subst feed_chunks.simps) simp
  next
    case False
    then have "feed_chunks fed rest = feed_chunks (fed @ take 4096 rest) (drop 4096 rest)"
      by (subst feed_chunks.simps) (simp add: Let_def)
    also have "\<dots> = (fed @ take 4096 rest) @ drop 4096 rest"
      using False by (intro "1.IH") simp_all
    finally show ?thesis by simp
  qed
qed

lemma plus_one_int_value:
  "plus_one v = Returned n \<Longrightarrow> \<exists>k. int_value v = Some k \<and> n = JInt (k + 1)"
  by (cases v) auto

text \<open>The two ways \<open>save_database\<close> ends.\<close>

lemma save_database_None:
  "metadata (database c) = None \<Longrightarrow> save_database c w = (Raised KeyError, c, w\<lparr>tick := Suc (tick w)\<rparr>)"
  by (simp add: save_database_def now_def)

lemma save_database_Some:
  "metadata (database c) = Some md \<Longrightarrow>
   save_database c w =
     (Returned (writable w (database_path c)),
      c\<lparr>database := (database c)\<lparr>metadata := Some (md(''last_updated'' \<mapsto> JStr (clock w (tick w))))\<rparr>\<rparr>,
      if writable w (database_path c)
      then w\<lparr>tick := Suc (tick w),
             fs := (fs w)(database_path c \<mapsto>
                     File (json_dump w ((database c)\<lparr>metadata :=
                             Some (md(''last_updated'' \<mapsto> JStr (clock w (tick w))))\<rparr>)))\<rparr>
      else w\<lparr>tick := Suc (tick w), stdout := stdout w @ [Error_saving_database]\<rparr>)"
  by (simp add: save_database_def now_def write_json_def print_def Let_def)

lemma save_database_files:
  "save_database c w = (r, c', w') \<Longrightarrow> files (database c') = files (database c)"
  by (cases "metadata (database c)") (auto simp: save_database_None save_database_Some)

lemma save_database_metadata_None:
  "save_database c w = (r, c', w') \<Longrightarrow>
   (metadata (database c') = None) = (metadata (database c) = None)"
  by (cases "metadata (database c)") (auto simp: save_database_None save_database_Some)

lemma save_database_result:
  "save_database c w = (r, c', w') \<Longrightarrow> metadata (database c) \<noteq> None \<Longrightarrow> \<exists>b. r = Returned b"
  by (cases "metadata (database c)") (auto simp: save_database_Some)

lemma put_info_simps [simp]:
  "files (database (put_info c fm p info)) = Some (fm(p \<mapsto> info))"
  "metadata (database (put_info c fm p info)) = metadata (database c)"
  "database_path (put_info c fm p info) = database_path c"
  by (simp_all add: put_info_def)

lemma calculate_file_hash_Some:
  assumes "calculate_file_hash w p algorithm = (Returned (Some h), w1)"
  shows "\<exists>name hexdigest content. algorithm = JStr name
           \<and> hashlib_new w name = Some (Hexdigest hexdigest)
           \<and> fs w p = Some (File content) \<and> h = hexdigest content"
  using assms
  by (auto simp: calculate_file_hash_def feed_chunks_eq
      split: jval.splits option.splits node.splits hash_object.splits)

lemma calculate_file_hash_needs_length:
  "hashlib_new w name = Some Needs_length \<Longrightarrow> fs w p = Some (File content) \<Longrightarrow>
   calculate_file_hash w p (JStr name) = (Raised TypeError, w)"
  by (simp add: calculate_file_hash_def)

lemma export_database_True:
  assumes "export_database c w export_path = (True, w1)"
  shows "w1 = w\<lparr>fs := (fs w)(export_path \<mapsto> File (json_dump w (database c)))\<rparr>"
  using assms by (auto simp: export_database_def write_json_def split: if_splits)

text \<open>The paths through \<open>verify_file\<close>, one case for each way the function ends.\<close>

lemma verify_file_cases [consumes 1, case_names no_files unknown missing hash_raised hash_failed
    count_raised no_hash matched mismatched]:
  assumes "verify_file c w file_path = (r, c', w')"
  obtains
    (no_files) "files (database c) = None" "r = Raised KeyError" "c' = c"
  | (unknown) fm where "files (database c) = Some fm" "fm (abspath w file_path) = None"
      "r = Returned Unknown" "c' = c" "w' = w"
  | (missing) fm stored_info where "files (database c) = Some fm"
      "fm (abspath w file_path) = Some stored_info" "\<not> exists_path w (abspath w file_path)"
      "r = Returned Missing" "c' = c" "w' = w"
  | (hash_raised) fm stored_info e where "files (database c) = Some fm"
      "fm (abspath w file_path) = Some stored_info" "exists_path w (abspath w file_path)"
      "calculate_file_hash w (abspath w file_path)
         (get_default stored_info ''algorithm'' (JStr ''sha256'')) = (Raised e, w')"
      "r = Raised e" "c' = c"
  | (hash_failed) fm stored_info where "files (database c) = Some fm"
      "fm (abspath w file_path) = Some stored_info" "exists_path w (abspath w file_path)"
      "calculate_file_hash w (abspath w file_path)
         (get_default stored_info ''algorithm'' (JStr ''sha256'')) = (Returned None, w')"
      "r = Returned Error" "c' = c"
  | (count_raised) fm stored_info current_hash w1 e where "files (database c) = Some fm"
      "fm (abspath w file_path) = Some stored_info" "exists_path w (abspath w file_path)"
      "calculate_file_hash w (abspath w file_path)
         (get_default stored_info ''algorithm'' (JStr ''sha256'')) = (Returned (Some current_hash), w1)"
      "plus_one (get_default stored_info ''check_count'' (JInt 0)) = Raised e"
      "r = Raised e"
      "c' = put_info c fm (abspath w file_path) (stored_info(''last_checked'' \<mapsto> JStr (clock w1 (tick w1))))"
  | (no_hash) fm stored_info current_hash w1 n where "files (database c) = Some fm"
      "fm (abspath w file_path) = Some stored_info" "exists_path w (abspath w file_path)"
      "calculate_file_hash w (abspath w file_path)
         (get_default stored_info ''algorithm'' (JStr ''sha256'')) = (Returned (Some current_hash), w1)"
      "plus_one (get_default stored_info ''check_count'' (JInt 0)) = Returned n"
      "stored_info ''hash'' = None"
      "r = Raised KeyError"
      "c' = put_info c fm (abspath w file_path)
             (stored_info(''last_checked'' \<mapsto> JStr (clock w1 (tick w1)), ''check_count'' \<mapsto> n))"
  | (matched) fm stored_info current_hash w1 n saved where "files (database c) = Some fm"
      "fm (abspath w file_path) = Some stored_info" "exists_path w (abspath w file_path)"
      "calculate_file_hash w (abspath w file_path)
         (get_default stored_info ''algorithm'' (JStr ''sha256'')) = (Returned (Some current_hash), w1)"
      "plus_one (get_default stored_info ''check_count'' (JInt 0)) = Returned n"
      "stored_info ''hash'' = Some (JStr current_hash)"
      "save_database (put_info c fm (abspath w file_path)
             (stored_info(''last_checked'' \<mapsto> JStr (clock w1 (tick w1)), ''check_count'' \<mapsto> n,
                          ''status'' \<mapsto> JStr ''verified'')))
           (w1\<lparr>tick := Suc (tick w1)\<rparr>) = (saved, c', w')"
      "r = (case saved of Raised e \<Rightarrow> Raised e
            | Returned b \<Rightarrow> Returned (Verified current_hash (JStr (clock w1 (tick w1)))))"
  | (mismatched) fm stored_info current_hash w1 n stored_hash saved where "files (database c) = Some fm"
      "fm (abspath w file_path) = Some stored_info" "exists_path w (abspath w file_path)"
      "calculate_file_hash w (abspath w file_path)
         (get_default stored_info ''algorithm'' (JStr ''sha256'')) = (Returned (Some current_hash), w1)"
      "plus_one (get_default stored_info ''check_count'' (JInt 0)) = Returned n"
      "stored_info ''hash'' = Some stored_hash" "stored_hash \<noteq> JStr current_hash"
      "save_database (put_info c fm (abspath w file_path)
             (stored_info(''last_checked'' \<mapsto> JStr (clock w1 (tick w1)), ''check_count'' \<mapsto> n,
                          ''status'' \<mapsto> JStr ''tampered'',
                          ''tampered_date'' \<mapsto> JStr (clock w1 (Suc (tick w1))))))
           (w1\<lparr>tick := Suc (Suc (tick w1))\<rparr>) = (saved, c', w')"
      "r = (case saved of Raised e \<Rightarrow> Raised e
            | Returned b \<Rightarrow> Returned (Tampered stored_hash current_hash (JStr (clock w1 (Suc (tick w1))))))"
proof -
  let ?p = "abspath w file_path"
  show thesis
  proof (cases "files (database c)")
    case None
    with assms have "r = Raised KeyError \<and> c' = c"
      by (auto simp: verify_file_def)
    with None show thesis by (intro no_files) simp_all
  next
    case fm: (Some fm)
    show thesis
    proof (cases "fm ?p")
      case None
      with assms fm have "r = Returned Unknown \<and> c' = c \<and> w' = w"
        by (auto simp: verify_file_def)
      with fm None show thesis by (intro unknown [of fm]) simp_all
    next
      case info: (Some stored_info)
      show thesis
      proof (cases "exists_path w ?p")
        case False
        with assms fm info have "r = Returned Missing \<and> c' = c \<and> w' = w"
          by (auto simp: verify_file_def)
        with fm info False show thesis by (intro missing [of fm stored_info]) simp_all
      next
        case ex: True
        obtain hr w1 where h: "calculate_file_hash w ?p
            (get_default stored_info ''algorithm'' (JStr ''sha256'')) = (hr, w1)"
          by (cases "calculate_file_hash w ?p (get_default stored_info ''algorithm'' (JStr ''sha256''))")
        show thesis
        proof (cases hr)
          case (Raised e)
          with assms fm info ex h have "r = Raised e \<and> c' = c \<and> w' = w1"
            by (auto simp: verify_file_def)
          with fm info ex h Raised show thesis by (intro hash_raised [of fm stored_info e]) simp_all
        next
          case (Returned ho)
          show thesis
          proof (cases ho)
            case None
            with assms fm info ex h Returned have "r = Returned Error \<and> c' = c \<and> w' = w1"
              by (auto simp: verify_file_def)
            with fm info ex h Returned None show thesis by (intro hash_failed [of fm stored_info]) simp_all
          next
            case hash: (Some current_hash)
            have cnt: "get_default (stored_info(''last_checked'' \<mapsto> v)) ''check_count'' (JInt 0)
                = get_default stored_info ''check_count'' (JInt 0)" for v
              by (simp add: get_default_def)
            show thesis
            proof (cases "plus_one (get_default stored_info ''check_count'' (JInt 0))")
              case (Raised e)
              with assms fm info ex h Returned hash cnt
              have "r = Raised e \<and> c' = put_info c fm ?p
                      (stored_info(''last_checked'' \<mapsto> JStr (clock w1 (tick w1))))"
                by (auto simp: verify_file_def now_def)
              with fm info ex h Returned hash Raised show thesis
                by (intro count_raised [of fm stored_info current_hash w1 e]) simp_all
            next
              case n: (Returned n)
              show thesis
              proof (cases "stored_info ''hash''")
                case None
                with assms fm info ex h Returned hash cnt n
                have "r = Raised KeyError \<and> c' = put_info c fm ?p
                        (stored_info(''last_checked'' \<mapsto> JStr (clock w1 (tick w1)),
                                     ''check_count'' \<mapsto> n))"
                  by (auto simp: verify_file_def now_def)
                with fm info ex h Returned hash n None show thesis
                  by (intro no_hash [of fm stored_info current_hash w1 n]) simp_all
              next
                case sh: (Some stored_hash)
                show thesis
                proof (cases "stored_hash = JStr current_hash")
                  case True
                  obtain saved c2 w2 where sv: "save_database (put_info c fm ?p
                       (stored_info(''last_checked'' \<mapsto> JStr (clock w1 (tick w1)), ''check_count'' \<mapsto> n,
                          ''status'' \<mapsto> JStr ''verified'')))
                       (w1\<lparr>tick := Suc (tick w1)\<rparr>) = (saved, c2, w2)"
                    using prod_cases3 by blast
                  with assms fm info ex h Returned hash cnt n sh True
                  have "c' = c2 \<and> w' = w2 \<and> r = (case saved of Raised e \<Rightarrow> Raised e
                      | Returned b \<Rightarrow> Returned (Verified current_hash (JStr (clock w1 (tick w1)))))"
                    by (auto simp: verify_file_def now_def split: result.splits)
                  with fm info ex h Returned hash n sh True sv show thesis
                    by (intro matched [of fm stored_info current_hash w1 n saved]) simp_all
                next
                  case False
                  obtain saved c2 w2 where sv: "save_database (put_info c fm ?p
                       (stored_info(''last_checked'' \<mapsto> JStr (clock w1 (tick w1)), ''check_count'' \<mapsto> n,
                          ''status'' \<mapsto> JStr ''tampered'',
                          ''tampered_date'' \<mapsto> JStr (clock w1 (Suc (tick w1))))))
                       (w1\<lparr>tick := Suc (Suc (tick w1))\<rparr>) = (saved, c2, w2)"
                    using prod_cases3 by blast
                  with assms fm info ex h Returned hash cnt n sh False
                  have "c' = c2 \<and> w' = w2 \<and> r = (case saved of Raised e \<Rightarrow> Raised e
                      | Returned b \<Rightarrow> Returned (Tampered stored_hash current_hash
                                                  (JStr (clock w1 (Suc (tick w1))))))"
                    by (auto simp: verify_file_def now_def split: result.splits)
                  with fm info ex h Returned hash n sh False sv show thesis
                    by (intro mismatched [of fm stored_info current_hash w1 n stored_hash saved]) simp_all
                qed
              qed
            qed
          qed
        qed
      qed
    qed
  qed
qed

lemma verify_file_metadata_None:
  assumes "verify_file c w file_path = (r, c', w')"
  shows "(metadata (database c') = None) = (metadata (database c) = None)"
  using assms
  by (cases rule: verify_file_cases) (auto dest: save_database_metadata_None)

lemma verify_step_status:
  assumes "verify_file c w file_path = (r, c', w')" and "metadata (database c) \<noteq> None"
  shows "record_field c' p ''status'' =
           (if abspath w file_path = p
            then (case comparison r of
                    None \<Rightarrow> record_field c p ''status''
                  | Some mismatch \<Rightarrow> Some (JStr (if mismatch then ''tampered'' else ''verified'')))
            else record_field c p ''status'')"
  using assms
proof (cases rule: verify_file_cases)
  case (matched fm stored_info current_hash w1 n saved)
  from matched(7) assms(2) obtain b where "saved = Returned b"
    by (auto dest: save_database_result)
  with matched show ?thesis
    by (auto simp: record_field_def lookup_record_def dest!: save_database_files)
next
  case (mismatched fm stored_info current_hash w1 n stored_hash saved)
  from mismatched(8) assms(2) obtain b where "saved = Returned b"
    by (auto dest: save_database_result)
  with mismatched show ?thesis
    by (auto simp: record_field_def lookup_record_def dest!: save_database_files)
qed (auto simp: record_field_def lookup_record_def)

lemma verify_step_field:
  assumes "verify_file c w file_path = (r, c', w')"
    and "k \<notin> {''last_checked'', ''check_count'', ''status'', ''tampered_date''}"
  shows "record_field c' p k = record_field c p k"
  using assms
  by (cases rule: verify_file_cases)
     (auto simp: record_field_def lookup_record_def dest!: save_database_files)

lemma verify_step_compared:
  assumes "verify_file c w file_path = (r, c', w')"
  shows "hash_compared c (abspath w file_path, r)"
  using assms
  by (cases rule: verify_file_cases)
     (auto simp: record_field_def lookup_record_def split: result.splits)

lemma hash_compared_cong:
  "(\<And>q. record_field c' q ''hash'' = record_field c q ''hash'') \<Longrightarrow>
   hash_compared c' e = hash_compared c e"
  by (cases "(c, e)" rule: hash_compared.cases) auto

lemma verify_log_compared:
  "\<forall>e \<in> set (verify_log c calls). hash_compared c e"
proof (induction calls arbitrary: c)
  case Nil
  show ?case by simp
next
  case (Cons call calls)
  obtain w file_path where call: "call = (w, file_path)" by (cases call)
  obtain r c' w' where v: "verify_file c w file_path = (r, c', w')"
    using prod_cases3 by blast
  have same: "record_field c' q ''hash'' = record_field c q ''hash''" for q
    using verify_step_field [OF v] by simp
  have "\<forall>e \<in> set (verify_log c' calls). hash_compared c e"
    using Cons.IH [of c'] hash_compared_cong [of c' c, OF same] by simp
  with verify_step_compared [OF v] call v show ?case by simp
qed

lemma verify_step_tampered_date:
  assumes "verify_file c w file_path = (r, c', w')"
    and "record_field c p ''tampered_date'' = Some d"
  shows "\<exists>d'. record_field c' p ''tampered_date'' = Some d'"
  using assms
  by (cases rule: verify_file_cases)
     (auto simp: record_field_def lookup_record_def dest!: save_database_files split: if_splits)

lemma verify_step_tampered_date_same:
  assumes "verify_file c w file_path = (r, c', w')"
    and "metadata (database c) \<noteq> None"
    and "\<not> mismatch_on p (abspath w file_path, r)"
  shows "record_field c' p ''tampered_date'' = record_field c p ''tampered_date''"
  using assms
proof (cases rule: verify_file_cases)
  case (mismatched fm stored_info current_hash w1 n stored_hash saved)
  from mismatched(8) assms(2) obtain b where "saved = Returned b"
    by (auto dest: save_database_result)
  with mismatched assms(3) show ?thesis
    by (auto simp: record_field_def lookup_record_def dest!: save_database_files)
qed (auto simp: record_field_def lookup_record_def dest!: save_database_files)

lemma verify_seq_tampered_date_present:
  "record_field c p ''tampered_date'' = Some d \<Longrightarrow>
   \<exists>d'. record_field (verify_seq c calls) p ''tampered_date'' = Some d'"
proof (induction calls arbitrary: c d)
  case Nil
  then show ?case by simp
next
  case (Cons call calls)
  obtain w file_path where call: "call = (w, file_path)" by (cases call)
  obtain r c' w' where v: "verify_file c w file_path = (r, c', w')"
    using prod_cases3 by blast
  from verify_step_tampered_date [OF v Cons.prems]
  obtain d' where "record_field c' p ''tampered_date'' = Some d'" ..
  from Cons.IH [OF this] call v show ?case by simp
qed

lemma verify_seq_tampered_date_same:
  "metadata (database c) \<noteq> None \<Longrightarrow>
   \<forall>e \<in> set (verify_log c calls). \<not> mismatch_on p e \<Longrightarrow>
   record_field (verify_seq c calls) p ''tampered_date'' = record_field c p ''tampered_date''"
proof (induction calls arbitrary: c)
  case Nil
  then show ?case by simp
next
  case (Cons call calls)
  obtain w file_path where call: "call = (w, file_path)" by (cases call)
  obtain r c' w' where v: "verify_file c w file_path = (r, c', w')"
    using prod_cases3 by blast
  have md: "metadata (database c') \<noteq> None"
    using verify_file_metadata_None [OF v] Cons.prems(1) by simp
  have here: "\<not> mismatch_on p (abspath w file_path, r)"
    and later: "\<forall>e \<in> set (verify_log c' calls). \<not> mismatch_on p e"
    using Cons.prems(2) call v by simp_all
  have "record_field (verify_seq c' calls) p ''tampered_date'' = record_field c' p ''tampered_date''"
    by (rule Cons.IH [OF md later])
  also have "\<dots> = record_field c p ''tampered_date''"
    by (rule verify_step_tampered_date_same [OF v Cons.prems(1) here])
  finally show ?case using call v by simp
qed

text \<open>Unfolding the operations on concrete inputs.\<close>

lemmas demo_defs = demo_hashlib_def demo_record_def demo_store_def demo_checker_def demo_world_def
  demo_corrupt_world_def
  demo_md5_checker_def demo_calls_def demo_tampered_checker_def demo_fresh_checker_def

lemmas run_defs = verify_file_def calculate_file_hash_def save_database_def write_json_def
  now_def print_def exists_path_def get_default_def put_info_def feed_chunks_eq Let_def

lemmas eval_defs = run_defs record_field_def lookup_record_def add_file_def remove_file_def
  export_database_def import_database_def read_json_def load_database_def load_fallback_def
  fresh_store_def st_size_def files_or_empty_def

lemma triple_collapse: "x = (fst x, fst (snd x), snd (snd x))"
  by simp

section \<open>The claims\<close>

subsection \<open>C1: an operation persists or reports failure\<close>

text \<open>
  C1. Every add, verify, remove and import either succeeds and persists the updated store,
  or reports failure to the caller and leaves the persisted store as it was; in particular
  verify never returns \<^verbatim>\<open>verified\<close> or \<^verbatim>\<open>tampered\<close> when persisting the mutated
  store failed.

  \<^verbatim>\<open>add_file\<close>, \<^verbatim>\<open>remove_file\<close> and \<^verbatim>\<open>import_database\<close> return the result of
  \<^verbatim>\<open>_save_database\<close>; \<^verbatim>\<open>verify_file\<close> calls it and drops the result. The theorem runs
  \<^verbatim>\<open>verify_file\<close> on an unchanged tracked file while the store file cannot be written:
  the call returns \<^verbatim>\<open>verified\<close>, the file system is what it was (the error line is
  printed), and the check count of the record went from 1 to 2 in memory only.
\<close>

theorem verify_reports_success_when_save_fails:
  "\<not> writable (demo_world ''hello'' False) (database_path demo_checker)
   \<and> fst (verify_file demo_checker (demo_world ''hello'' False) ''a.txt'')
       = Returned (Verified ''sha256:hello'' (JStr ''t1''))
   \<and> fs (snd (snd (verify_file demo_checker (demo_world ''hello'' False) ''a.txt'')))
       = fs (demo_world ''hello'' False)
   \<and> stdout (snd (snd (verify_file demo_checker (demo_world ''hello'' False) ''a.txt'')))
       = [Error_saving_database]
   \<and> record_field demo_checker ''/work/a.txt'' ''check_count'' = Some (JInt 1)
   \<and> record_field (fst (snd (verify_file demo_checker (demo_world ''hello'' False) ''a.txt'')))
        ''/work/a.txt'' ''check_count'' = Some (JInt 2)"
  by (simp add: demo_defs eval_defs)

subsection \<open>C2: the status follows the most recent comparison\<close>

text \<open>
  C2. After any verify call, the status of a record is \<^verbatim>\<open>tampered\<close> if and only if
  the most recent verification that computed a current hash found it different from the
  stored hash; a later verification that matches sets the status back to \<^verbatim>\<open>verified\<close>.

  For any sequence of verify calls on a store that has its \<^verbatim>\<open>"metadata"\<close>, and any
  path \<open>p\<close>: when some call of the sequence computed a hash for \<open>p\<close>, the status of
  the record is \<^verbatim>\<open>tampered\<close> if the most recent such call found a mismatch and
  \<^verbatim>\<open>verified\<close> if it found a match; when none did, the status is what it was before
  the sequence. Every \<^verbatim>\<open>verified\<close> of the log reports the stored hash as the current
  one, every \<^verbatim>\<open>tampered\<close> a current hash that differs from the stored one.
\<close>

theorem verify_status_follows_last_comparison:
  assumes "metadata (database c) \<noteq> None"
  shows "record_field (verify_seq c calls) p ''status'' =
           (case last_comparison p (verify_log c calls) of
              None \<Rightarrow> record_field c p ''status''
            | Some mismatch \<Rightarrow> Some (JStr (if mismatch then ''tampered'' else ''verified'')))
         \<and> (\<forall>e \<in> set (verify_log c calls). hash_compared c e)"
proof
  show "record_field (verify_seq c calls) p ''status'' =
           (case last_comparison p (verify_log c calls) of
              None \<Rightarrow> record_field c p ''status''
            | Some mismatch \<Rightarrow> Some (JStr (if mismatch then ''tampered'' else ''verified'')))"
    using assms
  proof (induction calls arbitrary: c)
    case Nil
    show ?case by simp
  next
    case (Cons call calls)
    obtain w file_path where call: "call = (w, file_path)" by (cases call)
    obtain r c' w' where v: "verify_file c w file_path = (r, c', w')"
      using prod_cases3 by blast
    have md: "metadata (database c') \<noteq> None"
      using verify_file_metadata_None [OF v] Cons.prems by simp
    note IH = Cons.IH [OF md]
    note step = verify_step_status [OF v Cons.prems, of p]
    show ?case
    proof (cases "last_comparison p (verify_log c' calls)")
      case None
      with IH step call v show ?thesis by (simp split: option.splits)
    next
      case (Some m)
      with IH call v show ?thesis by simp
    qed
  qed
next
  show "\<forall>e \<in> set (verify_log c calls). hash_compared c e"
    by (rule verify_log_compared)
qed

theorem verify_status_follows_last_comparison_witness:
  "metadata (database demo_checker) \<noteq> None
   \<and> last_comparison ''/work/a.txt'' (verify_log demo_checker demo_calls) = Some False
   \<and> last_comparison ''/work/a.txt'' (verify_log demo_checker (take 1 demo_calls)) = Some True
   \<and> record_field (verify_seq demo_checker demo_calls) ''/work/a.txt'' ''status''
       = Some (JStr ''verified'')
   \<and> record_field (verify_seq demo_checker (take 1 demo_calls)) ''/work/a.txt'' ''status''
       = Some (JStr ''tampered'')"
proof -
  have md: "metadata (database demo_checker) \<noteq> None"
    by (simp add: demo_defs)
  from verify_status_follows_last_comparison [OF md, of demo_calls "''/work/a.txt''"]
    verify_status_follows_last_comparison [OF md, of "take 1 demo_calls" "''/work/a.txt''"]
  show ?thesis
    by (simp add: demo_defs eval_defs)
qed

subsection \<open>C3: the check count\<close>

text \<open>
  C3. A verify call that computes the current hash (the result is \<^verbatim>\<open>verified\<close> or
  \<^verbatim>\<open>tampered\<close>) increases the \<^verbatim>\<open>check_count\<close> of the record by exactly 1, where an
  absent count reads as 0; a call classified \<^verbatim>\<open>unknown\<close>, \<^verbatim>\<open>missing\<close> or
  \<^verbatim>\<open>error\<close> leaves the whole checker object, so the count and the rest of the record,
  unchanged.
\<close>

theorem verify_check_count:
  assumes "verify_file c w file_path = (r, c', w')"
  shows "(is_computed r \<longrightarrow>
           (\<exists>info info' n. lookup_record c (abspath w file_path) = Some info
              \<and> lookup_record c' (abspath w file_path) = Some info'
              \<and> int_value (get_default info ''check_count'' (JInt 0)) = Some n
              \<and> info' ''check_count'' = Some (JInt (n + 1))))
       \<and> (r \<in> {Returned Unknown, Returned Missing, Returned Error} \<longrightarrow> c' = c)"
  using assms
  by (cases rule: verify_file_cases)
     (auto simp: lookup_record_def split: result.splits
        dest!: save_database_files plus_one_int_value)

theorem verify_check_count_witness:
  "is_computed (fst (verify_file demo_checker (demo_world ''world'' True) ''a.txt''))
   \<and> record_field demo_checker ''/work/a.txt'' ''check_count'' = Some (JInt 1)
   \<and> record_field (fst (snd (verify_file demo_checker (demo_world ''world'' True) ''a.txt'')))
        ''/work/a.txt'' ''check_count'' = Some (JInt 2)
   \<and> fst (verify_file demo_checker (demo_world ''world'' True) ''b.txt'') = Returned Unknown
   \<and> fst (snd (verify_file demo_checker (demo_world ''world'' True) ''b.txt'')) = demo_checker"
  using verify_check_count [OF triple_collapse, of demo_checker "demo_world ''world'' True" "''a.txt''"]
    verify_check_count [OF triple_collapse, of demo_checker "demo_world ''world'' True" "''b.txt''"]
  by (simp add: demo_defs eval_defs)

subsection \<open>C4: the tampered date is never cleared\<close>

text \<open>
  C4. Once a record has a \<^verbatim>\<open>tampered_date\<close>, no sequence of verify calls removes the
  field, also when a later matching verification sets the status back to
  \<^verbatim>\<open>verified\<close>; on a store with its \<^verbatim>\<open>"metadata"\<close> the value itself stays the same
  unless a call of the sequence finds a mismatch on that path.
\<close>

theorem tampered_date_never_cleared:
  assumes "record_field c p ''tampered_date'' = Some d"
  shows "(\<exists>d'. record_field (verify_seq c calls) p ''tampered_date'' = Some d')
       \<and> (metadata (database c) \<noteq> None
            \<and> (\<forall>e \<in> set (verify_log c calls). \<not> mismatch_on p e)
          \<longrightarrow> record_field (verify_seq c calls) p ''tampered_date'' = Some d)"
  using assms verify_seq_tampered_date_present [of c p d calls]
    verify_seq_tampered_date_same [of c calls p]
  by simp

theorem tampered_date_never_cleared_witness:
  "record_field demo_tampered_checker ''/work/a.txt'' ''tampered_date'' = Some (JStr ''t2'')
   \<and> record_field (verify_seq demo_tampered_checker [(demo_world ''hello'' True, ''a.txt'')])
        ''/work/a.txt'' ''tampered_date'' = Some (JStr ''t2'')
   \<and> record_field (verify_seq demo_tampered_checker [(demo_world ''hello'' True, ''a.txt'')])
        ''/work/a.txt'' ''status'' = Some (JStr ''verified'')"
proof -
  have d: "record_field demo_tampered_checker ''/work/a.txt'' ''tampered_date'' = Some (JStr ''t2'')"
    by (simp add: demo_defs eval_defs)
  from tampered_date_never_cleared [OF d, of "[(demo_world ''hello'' True, ''a.txt'')]"]
  show ?thesis
    by (simp add: demo_defs eval_defs)
qed

subsection \<open>C5: export, then import without merge\<close>

text \<open>
  C5. Exporting a store to a file and importing that file with \<^verbatim>\<open>merge=False\<close> into
  another checker (a fresh one, or any other) gives a store with the same path to record
  entries. The export is assumed to have succeeded, and \<^verbatim>\<open>json.load\<close> to read back the
  document that \<^verbatim>\<open>json.dump\<close> wrote. The entries are the same whatever the save that
  ends the import does; it raises only on a store without \<^verbatim>\<open>"metadata"\<close>, and when it
  returns \<^verbatim>\<open>True\<close> the imported store is what the destination's store file holds.
\<close>

theorem export_import_round_trip:
  assumes "export_database c w export_path = (True, w1)"
    and "json_load w (json_dump w (database c)) = Parsed (database c)"
    and "import_database c2 w1 export_path False = (r, c2', w2)"
  shows "files (database c2') = files (database c)
       \<and> (metadata (database c) \<noteq> None \<longrightarrow> (\<exists>saved. r = Returned saved))
       \<and> (r = Returned True \<longrightarrow>
            fs w2 (database_path c2) = Some (File (json_dump w (database c2'))))"
proof -
  have w1: "w1 = w\<lparr>fs := (fs w)(export_path \<mapsto> File (json_dump w (database c)))\<rparr>"
    by (rule export_database_True [OF assms(1)])
  have "read_json w1 export_path = Loaded (database c)"
    using assms(2) by (simp add: w1 read_json_def)
  with assms(3) have sv: "save_database (c2\<lparr>database := database c\<rparr>) w1 = (r, c2', w2)"
    by (simp add: import_database_def)
  show ?thesis
  proof (cases "metadata (database c)")
    case None
    with sv show ?thesis by (auto simp: save_database_None)
  next
    case (Some md)
    with sv show ?thesis by (auto simp: save_database_Some w1 split: if_splits)
  qed
qed

theorem export_import_round_trip_witness:
  "fst (export_database demo_checker (demo_world ''hello'' True) ''/work/backup.json'') = True
   \<and> json_load (demo_world ''hello'' True) (json_dump (demo_world ''hello'' True) (database demo_checker))
       = Parsed (database demo_checker)
   \<and> files (database demo_fresh_checker) = Some Map.empty
   \<and> files (database (fst (snd (import_database demo_fresh_checker
         (snd (export_database demo_checker (demo_world ''hello'' True) ''/work/backup.json''))
         ''/work/backup.json'' False))))
       = files (database demo_checker)
   \<and> fst (import_database demo_fresh_checker
         (snd (export_database demo_checker (demo_world ''hello'' True) ''/work/backup.json''))
         ''/work/backup.json'' False) = Returned True"
proof -
  let ?w = "demo_world ''hello'' True"
  have ex: "export_database demo_checker ?w ''/work/backup.json''
      = (True, snd (export_database demo_checker ?w ''/work/backup.json''))"
    by (simp add: demo_defs eval_defs)
  have rt: "json_load ?w (json_dump ?w (database demo_checker)) = Parsed (database demo_checker)"
    by (simp add: demo_defs)
  from export_import_round_trip [OF ex rt triple_collapse, of demo_fresh_checker]
  show ?thesis
    by (simp add: demo_defs eval_defs)
qed

subsection \<open>C6: import with merge\<close>

text \<open>
  C6. Importing a document \<open>I\<close> with \<^verbatim>\<open>merge=True\<close> into a store \<open>D\<close> gives a
  \<^verbatim>\<open>"files"\<close> mapping where every path of \<open>I\<close> has its record of \<open>I\<close> and every
  other path keeps what \<open>D\<close> had. The metadata of \<open>I\<close> is not used: the metadata
  after the import is that of \<open>D\<close>, where the save that ends the import has stamped
  \<^verbatim>\<open>last_updated\<close>.
\<close>

theorem import_merge_overrides:
  assumes "read_json w import_path = Loaded imported_data"
    and "files (database c) = Some fm"
    and "import_database c w import_path True = (r, c', w')"
  shows "(\<exists>fm'. files (database c') = Some fm'
            \<and> (\<forall>p. p \<in> dom (files_or_empty imported_data) \<longrightarrow> fm' p = files_or_empty imported_data p)
            \<and> (\<forall>p. p \<notin> dom (files_or_empty imported_data) \<longrightarrow> fm' p = fm p))
       \<and> metadata (database c') =
           map_option (\<lambda>md. md(''last_updated'' \<mapsto> JStr (clock w (tick w)))) (metadata (database c))"
proof -
  let ?c1 = "c\<lparr>database := (database c)\<lparr>files := Some (fm ++ files_or_empty imported_data)\<rparr>\<rparr>"
  from assms have sv: "save_database ?c1 w = (r, c', w')"
    by (simp add: import_database_def files_or_empty_def)
  show ?thesis
  proof (cases "metadata (database c)")
    case None
    with sv show ?thesis by (auto simp: save_database_None map_add_def split: option.splits)
  next
    case (Some md)
    with sv show ?thesis by (auto simp: save_database_Some map_add_def split: option.splits)
  qed
qed

theorem import_merge_overrides_witness:
  "read_json (demo_world ''hello'' True) ''/work/integrity_database.json'' = Loaded demo_store
   \<and> record_field demo_md5_checker ''/work/a.txt'' ''algorithm'' = Some (JStr ''md5'')
   \<and> record_field (fst (snd (import_database demo_md5_checker (demo_world ''hello'' True)
          ''/work/integrity_database.json'' True))) ''/work/a.txt'' ''algorithm'' = Some (JStr ''sha256'')
   \<and> lookup_record (fst (snd (import_database demo_md5_checker (demo_world ''hello'' True)
          ''/work/integrity_database.json'' True))) ''/work/b.txt'' = Some demo_record
   \<and> metadata (database (fst (snd (import_database demo_md5_checker (demo_world ''hello'' True)
          ''/work/integrity_database.json'' True))))
       = Some [''created'' \<mapsto> JStr ''t0'', ''last_updated'' \<mapsto> JStr ''t1'']"
proof -
  let ?w = "demo_world ''hello'' True"
  have rd: "read_json ?w ''/work/integrity_database.json'' = Loaded demo_store"
    by (simp add: demo_defs eval_defs)
  have fm: "files (database demo_md5_checker)
      = Some [''/work/a.txt'' \<mapsto> demo_record(''algorithm'' \<mapsto> JStr ''md5'',
                                               ''hash'' \<mapsto> JStr ''md5:hello''),
              ''/work/b.txt'' \<mapsto> demo_record]"
    by (simp add: demo_defs)
  from import_merge_overrides [OF rd fm triple_collapse]
  show ?thesis
    by (simp add: demo_defs eval_defs)
qed

subsection \<open>C7: loading a malformed or absent store file\<close>

text \<open>
  The handler of \<^verbatim>\<open>_load_database\<close> names \<^verbatim>\<open>json.JSONDecodeError\<close> and
  \<^verbatim>\<open>IOError\<close>. When the content of the store file is text that is not valid JSON,
  loading prints the warning and returns the fresh store, with an empty \<^verbatim>\<open>"files"\<close>
  and \<^verbatim>\<open>created\<close> set to the current time; when the path does not exist it returns
  the same fresh store, without the warning. When the content is not text, the exception
  is not one the handler names, and it leaves the function.
\<close>

lemma load_database_falls_back:
  "(fs w path = Some (File content) \<and> json_load w content = JSONDecodeError \<longrightarrow>
      load_database path w =
        (Returned \<lparr>files = Some Map.empty, metadata = Some [''created'' \<mapsto> JStr (clock w (tick w))]\<rparr>,
         w\<lparr>stdout := stdout w @ [Warning_could_not_load_database], tick := Suc (tick w)\<rparr>))
   \<and> (fs w path = None \<longrightarrow>
      load_database path w =
        (Returned \<lparr>files = Some Map.empty, metadata = Some [''created'' \<mapsto> JStr (clock w (tick w))]\<rparr>,
         w\<lparr>tick := Suc (tick w)\<rparr>))"
  by (simp add: load_database_def load_fallback_def exists_path_def read_json_def fresh_store_def
      now_def print_def)

lemma load_database_not_text:
  "fs w path = Some (File content) \<Longrightarrow> json_load w content = NotText \<Longrightarrow>
   load_database path w = (Raised UnicodeDecodeError, w)"
  by (simp add: load_database_def exists_path_def read_json_def)

text \<open>
  C7. For every store path whose file exists but contains malformed data, load does not
  fail the program: it reports a warning and returns a fresh empty store.

  The code does so only for malformed data that is text. The theorem runs
  \<^verbatim>\<open>_load_database\<close> on a store file that holds the two bytes \<open>0xFF 0xFE\<close>:
  \<^verbatim>\<open>json.load\<close> raises \<^verbatim>\<open>UnicodeDecodeError\<close>, which is a \<^verbatim>\<open>ValueError\<close> but
  neither a \<^verbatim>\<open>JSONDecodeError\<close> nor an \<^verbatim>\<open>IOError\<close>, so the handler of line 30 does
  not catch it: the call raises, prints no warning and returns no store.
\<close>

theorem load_database_raises_on_undecodable_store:
  "fs demo_corrupt_world ''/work/integrity_database.json'' = Some (File [CHR 0xFF, CHR 0xFE])
   \<and> json_load demo_corrupt_world [CHR 0xFF, CHR 0xFE] = NotText
   \<and> fst (load_database ''/work/integrity_database.json'' demo_corrupt_world)
       = Raised UnicodeDecodeError
   \<and> stdout (snd (load_database ''/work/integrity_database.json'' demo_corrupt_world)) = []"
  by (simp add: demo_defs load_database_def exists_path_def read_json_def)

subsection \<open>C8: verification uses the recorded algorithm\<close>

text \<open>
  C8. When the record of the verified path stores the algorithm name \<open>a\<close>, or stores no
  algorithm and \<open>a\<close> is \<^verbatim>\<open>sha256\<close>, the current hash that a \<^verbatim>\<open>verified\<close> or
  \<^verbatim>\<open>tampered\<close> result reports is the digest of the file's content under \<open>a\<close>.
\<close>

theorem verify_uses_recorded_algorithm:
  assumes "verify_file c w file_path = (r, c', w')"
    and "lookup_record c (abspath w file_path) = Some info"
    and "info ''algorithm'' = Some (JStr a) \<or> info ''algorithm'' = None \<and> a = ''sha256''"
    and "r = Returned (Verified h t) \<or> r = Returned (Tampered e h t)"
  shows "\<exists>hexdigest content. hashlib_new w a = Some (Hexdigest hexdigest)
           \<and> fs w (abspath w file_path) = Some (File content) \<and> h = hexdigest content"
  using assms(1)
proof (cases rule: verify_file_cases)
  case (matched fm stored_info current_hash w1 n saved)
  with assms(2,3) have alg: "get_default stored_info ''algorithm'' (JStr ''sha256'') = JStr a"
    by (auto simp: lookup_record_def get_default_def)
  from matched(8) assms(4) have "h = current_hash" by (auto split: result.splits)
  with calculate_file_hash_Some [OF matched(4)] alg show ?thesis by auto
next
  case (mismatched fm stored_info current_hash w1 n stored_hash saved)
  with assms(2,3) have alg: "get_default stored_info ''algorithm'' (JStr ''sha256'') = JStr a"
    by (auto simp: lookup_record_def get_default_def)
  from mismatched(9) assms(4) have "h = current_hash" by (auto split: result.splits)
  with calculate_file_hash_Some [OF mismatched(4)] alg show ?thesis by auto
qed (use assms(4) in auto)

theorem verify_uses_recorded_algorithm_witness:
  "record_field demo_md5_checker ''/work/a.txt'' ''algorithm'' = Some (JStr ''md5'')
   \<and> fst (verify_file demo_md5_checker (demo_world ''hello'' True) ''a.txt'')
       = Returned (Verified ''md5:hello'' (JStr ''t1''))
   \<and> (\<exists>hexdigest content. hashlib_new (demo_world ''hello'' True) ''md5'' = Some (Hexdigest hexdigest)
         \<and> fs (demo_world ''hello'' True) ''/work/a.txt'' = Some (File content)
         \<and> ''md5:hello'' = hexdigest content)"
proof -
  let ?w = "demo_world ''hello'' True"
  let ?info = "demo_record(''algorithm'' \<mapsto> JStr ''md5'', ''hash'' \<mapsto> JStr ''md5:hello'')"
  have rec: "lookup_record demo_md5_checker (abspath ?w ''a.txt'') = Some ?info"
    by (simp add: demo_defs eval_defs)
  have alg: "?info ''algorithm'' = Some (JStr ''md5'') \<or> ?info ''algorithm'' = None \<and> ''md5'' = ''sha256''"
    by simp
  have res: "fst (verify_file demo_md5_checker ?w ''a.txt'') = Returned (Verified ''md5:hello'' (JStr ''t1''))"
    by (simp add: demo_defs eval_defs)
  then have r: "fst (verify_file demo_md5_checker ?w ''a.txt'') = Returned (Verified ''md5:hello'' (JStr ''t1''))
      \<or> fst (verify_file demo_md5_checker ?w ''a.txt'') = Returned (Tampered JNull ''md5:hello'' (JStr ''t1''))"
    by simp
  from verify_uses_recorded_algorithm [OF triple_collapse rec alg r] res
  show ?thesis
    by (simp add: demo_defs eval_defs)
qed

subsection \<open>C9: what remove returns\<close>

text \<open>
  C9 says that remove returns exactly whether a record existed. It does not: with a record
  present and a store file that cannot be written, \<^verbatim>\<open>remove_file\<close> returns
  \<^verbatim>\<open>False\<close>, the result of \<^verbatim>\<open>_save_database\<close>.
\<close>

theorem remove_file_counterexample:
  "lookup_record demo_checker (abspath (demo_world ''hello'' False) ''a.txt'') \<noteq> None
   \<and> fst (remove_file demo_checker (demo_world ''hello'' False) ''a.txt'') = Returned False"
  by (simp add: demo_defs eval_defs)

text \<open>
  C9, amended. On a store with \<^verbatim>\<open>"files"\<close> and \<^verbatim>\<open>"metadata"\<close>, remove deletes the
  record of the canonical path and returns \<^verbatim>\<open>True\<close> if and only if a record was present
  and the store was saved. With no record it returns \<^verbatim>\<open>False\<close>, raises nothing and
  changes nothing; with a record and a successful save the store file holds the store
  without that record.
\<close>

theorem remove_file_returns_saved:
  assumes "remove_file c w file_path = (r, c', w')"
    and "files (database c) = Some fm"
    and "metadata (database c) \<noteq> None"
  shows "r = Returned (fm (abspath w file_path) \<noteq> None \<and> writable w (database_path c))
       \<and> files (database c') = Some (fm(abspath w file_path := None))
       \<and> (fm (abspath w file_path) = None \<longrightarrow> c' = c \<and> w' = w)
       \<and> (fm (abspath w file_path) \<noteq> None \<and> writable w (database_path c) \<longrightarrow>
            fs w' (database_path c) = Some (File (json_dump w (database c'))))"
proof -
  from assms(3) obtain md where md: "metadata (database c) = Some md" by auto
  show ?thesis
  proof (cases "fm (abspath w file_path)")
    case None
    with assms(1,2) show ?thesis by (auto simp: remove_file_def Let_def)
  next
    case (Some info)
    with assms(1,2) md show ?thesis
      by (auto simp: remove_file_def save_database_Some Let_def split: if_splits)
  qed
qed

theorem remove_file_returns_saved_witness:
  "files (database demo_checker) = Some [''/work/a.txt'' \<mapsto> demo_record]
   \<and> metadata (database demo_checker) \<noteq> None
   \<and> fst (remove_file demo_checker (demo_world ''hello'' True) ''a.txt'') = Returned True
   \<and> fst (remove_file demo_checker (demo_world ''hello'' False) ''a.txt'') = Returned False
   \<and> fst (remove_file demo_checker (demo_world ''hello'' True) ''b.txt'') = Returned False
   \<and> lookup_record (fst (snd (remove_file demo_checker (demo_world ''hello'' True) ''a.txt'')))
        ''/work/a.txt'' = None"
proof -
  have fm: "files (database demo_checker) = Some [''/work/a.txt'' \<mapsto> demo_record]"
    and md: "metadata (database demo_checker) \<noteq> None"
    by (simp_all add: demo_defs)
  from remove_file_returns_saved [OF triple_collapse fm md, of "demo_world ''hello'' True" "''a.txt''"]
    remove_file_returns_saved [OF triple_collapse fm md, of "demo_world ''hello'' False" "''a.txt''"]
    remove_file_returns_saved [OF triple_collapse fm md, of "demo_world ''hello'' True" "''b.txt''"]
  show ?thesis
    by (simp add: demo_defs lookup_record_def)
qed

subsection \<open>C10: add always records sha256\<close>

text \<open>
  C10. Whatever \<^verbatim>\<open>add_file\<close> returns, either it left the \<^verbatim>\<open>"files"\<close> mapping as
  it was, or it set the record of the canonical path to one whose algorithm is
  \<^verbatim>\<open>sha256\<close> and whose hash is the sha256 digest of the file's content. When the store
  has a \<^verbatim>\<open>"files"\<close> mapping, the file can be read and sha256 is supported, it does the
  latter, whatever record the path had before: a record made with another algorithm is
  reset.
\<close>

theorem add_file_records_sha256:
  assumes "add_file c w file_path description = (r, c', w')"
  shows "(files (database c') = files (database c)
          \<or> (\<exists>fm info hexdigest content.
                files (database c) = Some fm
              \<and> files (database c') = Some (fm(abspath w file_path \<mapsto> info))
              \<and> info ''algorithm'' = Some (JStr ''sha256'')
              \<and> hashlib_new w ''sha256'' = Some (Hexdigest hexdigest)
              \<and> fs w (abspath w file_path) = Some (File content)
              \<and> info ''hash'' = Some (JStr (hexdigest content))))
       \<and> (\<forall>fm hexdigest content.
             files (database c) = Some fm \<and> hashlib_new w ''sha256'' = Some (Hexdigest hexdigest)
               \<and> fs w (abspath w file_path) = Some (File content) \<longrightarrow>
             (\<exists>info. files (database c') = Some (fm(abspath w file_path \<mapsto> info))
                \<and> info ''algorithm'' = Some (JStr ''sha256'')
                \<and> info ''hash'' = Some (JStr (hexdigest content))))"
proof -
  let ?p = "abspath w file_path"
  obtain hr w1 where h: "calculate_file_hash w ?p (JStr ''sha256'') = (hr, w1)"
    by (cases "calculate_file_hash w ?p (JStr ''sha256'')")
  show ?thesis
  proof (cases "\<exists>hexdigest content. hashlib_new w ''sha256'' = Some (Hexdigest hexdigest)
                  \<and> fs w ?p = Some (File content)")
    case False
    then have "\<exists>w1. calculate_file_hash w ?p (JStr ''sha256'') = (Returned None, w1)
                \<or> calculate_file_hash w ?p (JStr ''sha256'') = (Raised TypeError, w1)"
      by (auto simp: calculate_file_hash_def split: option.splits node.splits hash_object.splits)
    with assms False show ?thesis
      by (auto simp: add_file_def Let_def split: if_splits)
  next
    case True
    then obtain hexdigest content where hd: "hashlib_new w ''sha256'' = Some (Hexdigest hexdigest)"
      and ct: "fs w ?p = Some (File content)" by auto
    then have h: "calculate_file_hash w ?p (JStr ''sha256'') = (Returned (Some (hexdigest content)), w)"
      by (simp add: calculate_file_hash_def feed_chunks_eq)
    show ?thesis
    proof (cases "files (database c)")
      case None
      with assms h ct show ?thesis
        by (auto simp: add_file_def exists_path_def now_def Let_def)
    next
      case (Some fm)
      with assms h ct hd show ?thesis
        by (auto simp: add_file_def exists_path_def now_def Let_def dest!: save_database_files)
    qed
  qed
qed

theorem add_file_records_sha256_witness:
  "record_field demo_md5_checker ''/work/a.txt'' ''algorithm'' = Some (JStr ''md5'')
   \<and> record_field (fst (snd (add_file demo_md5_checker (demo_world ''hello'' True) ''a.txt'' ''again'')))
        ''/work/a.txt'' ''algorithm'' = Some (JStr ''sha256'')
   \<and> record_field (fst (snd (add_file demo_md5_checker (demo_world ''hello'' True) ''a.txt'' ''again'')))
        ''/work/a.txt'' ''hash'' = Some (JStr ''sha256:hello'')"
  using add_file_records_sha256 [OF triple_collapse, of demo_md5_checker "demo_world ''hello'' True"
      "''a.txt''" "''again''"]
  by (simp add: demo_defs eval_defs)

end
